theory Spec2Isabelle
  imports Complex_Main "HOL-Library.Sublist" "HOL-Library.AList"
begin

section \<open>Opinion.Trade market monitor: the notification core\<close>

text \<open>
  A shallow embedding of \<^verbatim>\<open>new-market-code.py\<close>: the data classes \<^verbatim>\<open>Market\<close> and
  \<^verbatim>\<open>UserPreferences\<close>, the filter \<^verbatim>\<open>market_matches_preferences\<close>, the dispatcher
  \<^verbatim>\<open>send_market_alert\<close>, the polling job \<^verbatim>\<open>check_new_markets\<close>, the parser
  \<^verbatim>\<open>parse_markets\<close>, the persistence pair \<^verbatim>\<open>save_data\<close> / \<^verbatim>\<open>load_data\<close> and the
  \<^verbatim>\<open>/start\<close> handler.

  Conventions of the model.
  \<^item> A Python \<^verbatim>\<open>str\<close> is the list of its Unicode code points; \<^verbatim>\<open>str.lower\<close> is a
    parameter of the model, so nothing is assumed about how it folds case.
  \<^item> A Python \<^verbatim>\<open>float\<close> is a number, an infinity or NaN, compared as IEEE 754 compares
    them: every comparison with NaN is false.
  \<^item> A \<^verbatim>\<open>datetime\<close> is naive or timezone-aware and carries a count of microseconds.
    Subtracting a naive from an aware value (or the reverse) raises \<^verbatim>\<open>TypeError\<close>.
  \<^item> An exception is a value of type \<open>error\<close>. A pure call that may raise returns a sum
    (\<open>Inl\<close> the exception); a call that changes the bot returns an \<open>outcome\<close>, which keeps
    the state reached when the exception left the function.
\<close>

subsection \<open>Strings\<close>

type_synonym codepoint = nat

type_synonym pystr = "codepoint list"

text \<open>A string literal of the source (all of them are ASCII), as code points.\<close>

definition lit :: "string \<Rightarrow> pystr" where
  "lit s = map of_char s"

text \<open>Python's \<^verbatim>\<open>needle in haystack\<close> on strings is \<^const>\<open>sublist\<close>:
  \<open>sublist xs ys \<longleftrightarrow> (\<exists>ps ss. ys = ps @ xs @ ss)\<close>.\<close>

subsection \<open>Floats\<close>

datatype pyfloat = Num real | PosInf | NegInf | NaN

text \<open>\<^verbatim>\<open>a < b\<close> and \<^verbatim>\<open>a >= b\<close> on floats.\<close>

fun float_lt :: "pyfloat \<Rightarrow> pyfloat \<Rightarrow> bool" where
  "float_lt NaN b = False"
| "float_lt a NaN = False"
| "float_lt (Num a) (Num b) = (a < b)"
| "float_lt (Num a) PosInf = True"
| "float_lt (Num a) NegInf = False"
| "float_lt NegInf NegInf = False"
| "float_lt NegInf b = True"
| "float_lt PosInf b = False"

fun float_ge :: "pyfloat \<Rightarrow> pyfloat \<Rightarrow> bool" where
  "float_ge NaN b = False"
| "float_ge a NaN = False"
| "float_ge (Num a) (Num b) = (a \<ge> b)"
| "float_ge (Num a) PosInf = False"
| "float_ge (Num a) NegInf = True"
| "float_ge PosInf b = True"
| "float_ge NegInf NegInf = True"
| "float_ge NegInf b = False"

subsection \<open>Data structures\<close>

datatype datetime = Naive int | Aware int

datatype error = KeyError | ValueError | TypeError | AttributeError | OverflowError

text \<open>A value stored under \<^verbatim>\<open>last_notified[market_id]\<close>: the \<^verbatim>\<open>datetime\<close> that
  \<^verbatim>\<open>send_market_alert\<close> writes, or the text that \<^verbatim>\<open>load_data\<close> reads back from the file.\<close>

datatype stamp = Dt datetime | Txt pystr

record market =
  market_id :: pystr
  question :: pystr
  description :: pystr
  category :: pystr
  volume :: pyfloat
  liquidity :: pyfloat
  expiry :: datetime
  url :: pystr
  created_at :: datetime
  tags :: "pystr list"

record user_preferences =
  user_id :: int
  enabled_categories :: "pystr set"
  keywords_list :: "pystr list"
  min_liquidity :: pyfloat
  min_volume :: pyfloat
  notify_on_launch :: bool
  last_notified :: "(pystr \<times> stamp) list"

subsection \<open>Library functions\<close>

text \<open>
  The library functions the source calls are parameters of the model: \<^verbatim>\<open>str.lower\<close>,
  \<^verbatim>\<open>str\<close> and \<^verbatim>\<open>int\<close> on user ids, \<^verbatim>\<open>str\<close> on a \<^verbatim>\<open>datetime\<close> (what
  \<^verbatim>\<open>json.dump(..., default=str)\<close> writes for one), \<^verbatim>\<open>list\<close> on a set,
  \<^verbatim>\<open>datetime.fromisoformat\<close>, \<^verbatim>\<open>float\<close> on a string (\<open>None\<close>: \<^verbatim>\<open>ValueError\<close>), \<^verbatim>\<open>float\<close> on
  an integer beyond \<open>2 ^ 53\<close>, which rounds (\<open>None\<close>: \<^verbatim>\<open>OverflowError\<close>), and \<^verbatim>\<open>str\<close> on a
  JSON value that is no string.
\<close>

datatype json = JNull | JBool bool | JInt int | JFloat pyfloat | JStr pystr
  | JList "json list" | JDict "(pystr \<times> json) list"

record pylib =
  str_lower :: "pystr \<Rightarrow> pystr"
  str_int :: "int \<Rightarrow> pystr"
  int_str :: "pystr \<Rightarrow> int option"
  str_datetime :: "datetime \<Rightarrow> pystr"
  list_set :: "pystr set \<Rightarrow> pystr list"
  fromisoformat :: "pystr \<Rightarrow> datetime option"
  float_str :: "pystr \<Rightarrow> pyfloat option"
  float_int :: "int \<Rightarrow> pyfloat option"
  str_json :: "json \<Rightarrow> pystr"

subsection \<open>Market filtering\<close>

definition market_matches_preferences :: "pylib \<Rightarrow> market \<Rightarrow> user_preferences \<Rightarrow> bool" where
  "market_matches_preferences lib m prefs =
     (if enabled_categories prefs \<noteq> {} \<and> category m \<notin> enabled_categories prefs then False
      else if float_lt (liquidity m) (min_liquidity prefs) then False
      else if float_lt (volume m) (min_volume prefs) then False
      else if keywords_list prefs \<noteq> [] then
        (let market_text = str_lower lib (question m @ lit '' '' @ description m)
         in if \<not> list_ex (\<lambda>keyword. sublist (str_lower lib keyword) market_text)
                   (keywords_list prefs)
            then False else True)
      else True)"

text \<open>The four predicates of the specification's filter-match engine, in its words;
  \<open>\<ge>\<close> on amounts is Python's \<^verbatim>\<open>>=\<close>, and a keyword is a case-insensitive substring of a
  text when its lower-cased form occurs in the lower-cased text.\<close>

definition category_predicate :: "market \<Rightarrow> user_preferences \<Rightarrow> bool" where
  "category_predicate m prefs =
     (enabled_categories prefs = {} \<or> category m \<in> enabled_categories prefs)"

definition liquidity_predicate :: "market \<Rightarrow> user_preferences \<Rightarrow> bool" where
  "liquidity_predicate m prefs = float_ge (liquidity m) (min_liquidity prefs)"

definition volume_predicate :: "market \<Rightarrow> user_preferences \<Rightarrow> bool" where
  "volume_predicate m prefs = float_ge (volume m) (min_volume prefs)"

definition case_insensitive_substring :: "pylib \<Rightarrow> pystr \<Rightarrow> pystr \<Rightarrow> bool" where
  "case_insensitive_substring lib keyword text =
     sublist (str_lower lib keyword) (str_lower lib text)"

text \<open>The keyword predicate over the title concatenated with the description.\<close>

definition keyword_predicate_concat :: "pylib \<Rightarrow> market \<Rightarrow> user_preferences \<Rightarrow> bool" where
  "keyword_predicate_concat lib m prefs =
     (keywords_list prefs = [] \<or>
      (\<exists>keyword \<in> set (keywords_list prefs).
         case_insensitive_substring lib keyword (question m @ description m)))"

text \<open>The keyword predicate over the title, one space, and the description.\<close>

definition keyword_predicate_spaced :: "pylib \<Rightarrow> market \<Rightarrow> user_preferences \<Rightarrow> bool" where
  "keyword_predicate_spaced lib m prefs =
     (keywords_list prefs = [] \<or>
      (\<exists>keyword \<in> set (keywords_list prefs).
         case_insensitive_substring lib keyword (question m @ lit '' '' @ description m)))"

text \<open>The inputs of the concrete filter scenario; the fields it leaves open are parameters.\<close>

definition scenario_market :: "pystr \<Rightarrow> pystr \<Rightarrow> datetime \<Rightarrow> pystr \<Rightarrow> datetime \<Rightarrow> pystr list \<Rightarrow> market" where
  "scenario_market q d e u c ts =
     \<lparr>market_id = lit ''m1'', question = q, description = d, category = lit ''crypto'',
      volume = Num 1500, liquidity = Num 750, expiry = e, url = u, created_at = c, tags = ts\<rparr>"

subsection \<open>Time\<close>

text \<open>A \<^verbatim>\<open>timedelta\<close> is a count of microseconds. Python keeps it normalised with
  \<^verbatim>\<open>0 <= seconds < 86400\<close>, so \<^verbatim>\<open>.days\<close> is the quotient rounded down.\<close>

type_synonym timedelta = int

definition timedelta_hours :: "int \<Rightarrow> timedelta" where
  "timedelta_hours h = h * 3600000000"

definition timedelta_days :: "int \<Rightarrow> timedelta" where
  "timedelta_days d = d * 86400000000"

definition days :: "timedelta \<Rightarrow> int" where
  "days td = td div 86400000000"

fun datetime_sub :: "datetime \<Rightarrow> datetime \<Rightarrow> error + timedelta" where
  "datetime_sub (Naive a) (Naive b) = Inr (a - b)"
| "datetime_sub (Aware a) (Aware b) = Inr (a - b)"
| "datetime_sub (Naive a) (Aware b) = Inl TypeError"
| "datetime_sub (Aware a) (Naive b) = Inl TypeError"

fun datetime_add :: "datetime \<Rightarrow> timedelta \<Rightarrow> datetime" where
  "datetime_add (Naive a) td = Naive (a + td)"
| "datetime_add (Aware a) td = Aware (a + td)"

subsection \<open>The persisted document\<close>

text \<open>
  The content of \<^verbatim>\<open>bot_data.json\<close> as \<^verbatim>\<open>save_data\<close> lays it out and \<^verbatim>\<open>json.load\<close> returns
  it: JSON has no sets and no datetimes, so the categories are a list and every
  last-notified value is text.
\<close>

record prefs_doc =
  doc_enabled_categories :: "pystr list"
  doc_keywords :: "pystr list"
  doc_min_liquidity :: pyfloat
  doc_min_volume :: pyfloat
  doc_notify_on_launch :: bool
  doc_last_notified :: "(pystr \<times> pystr) list"

record data_doc =
  doc_seen_markets :: "pystr list"
  doc_user_prefs :: "(pystr \<times> prefs_doc) list"

subsection \<open>The bot and its environment\<close>

text \<open>
  The rendered alert, as the values the f-string interpolates. \<open>msg_days_left\<close> is the
  figure in \<^verbatim>\<open>({days_left} days)\<close>.
\<close>

record message =
  msg_question :: pystr
  msg_volume :: pyfloat
  msg_liquidity :: pyfloat
  msg_category :: pystr
  msg_expiry :: datetime
  msg_days_left :: int
  msg_tags :: pystr
  msg_url :: pystr

text \<open>
  The bot: the ledger \<^verbatim>\<open>seen_markets\<close>, the dict \<^verbatim>\<open>user_prefs\<close> as its items in insertion
  order (keys are distinct), the file \<^verbatim>\<open>bot_data.json\<close> (\<open>None\<close> when it does not exist), and
  \<open>outbox\<close>, the list of calls made to \<^verbatim>\<open>bot.send_message\<close>, successful or not.
\<close>

record bot =
  seen_markets :: "pystr set"
  user_prefs :: "(int \<times> user_preferences) list"
  outbox :: "(int \<times> message) list"
  data_file :: "data_doc option"

text \<open>
  What the environment answers during one call of \<^verbatim>\<open>send_market_alert\<close>: the three clock
  readings (\<^verbatim>\<open>datetime.now()\<close> in the cooldown test, \<^verbatim>\<open>datetime.now(pytz.UTC)\<close>,
  \<^verbatim>\<open>datetime.now()\<close> after the send) and whether \<^verbatim>\<open>send_message\<close> returns (\<open>True\<close>) or raises.
\<close>

record call_env =
  now_check :: int
  now_utc :: int
  delivered :: bool
  now_sent :: int

datatype 'a outcome = Done 'a | Raised error 'a

fun state_of :: "'a outcome \<Rightarrow> 'a" where
  "state_of (Done s) = s"
| "state_of (Raised e s) = s"

definition CATEGORIES :: "(pystr \<times> pystr) list" where
  "CATEGORIES =
     [(lit ''politics'', lit ''Politics''), (lit ''crypto'', lit ''Cryptocurrency''), (lit ''sports'', lit ''Sports''),
      (lit ''entertainment'', lit ''Entertainment''), (lit ''technology'', lit ''Technology''),
      (lit ''finance'', lit ''Finance''), (lit ''science'', lit ''Science''), (lit ''other'', lit ''Other'')]"

subsection \<open>Data persistence\<close>

definition stamp_text :: "pylib \<Rightarrow> stamp \<Rightarrow> pystr" where
  "stamp_text lib st = (case st of Dt d \<Rightarrow> str_datetime lib d | Txt s \<Rightarrow> s)"

definition prefs_to_doc :: "pylib \<Rightarrow> user_preferences \<Rightarrow> prefs_doc" where
  "prefs_to_doc lib prefs =
     \<lparr>doc_enabled_categories = list_set lib (enabled_categories prefs),
      doc_keywords = keywords_list prefs,
      doc_min_liquidity = min_liquidity prefs,
      doc_min_volume = min_volume prefs,
      doc_notify_on_launch = notify_on_launch prefs,
      doc_last_notified = map (\<lambda>(k, v). (k, stamp_text lib v)) (last_notified prefs)\<rparr>"

definition save_data :: "pylib \<Rightarrow> bot \<Rightarrow> bot" where
  "save_data lib b =
     b\<lparr>data_file := Some
        \<lparr>doc_seen_markets = list_set lib (seen_markets b),
         doc_user_prefs =
           map (\<lambda>(uid, prefs). (str_int lib uid, prefs_to_doc lib prefs)) (user_prefs b)\<rparr>\<rparr>"

definition doc_to_prefs :: "int \<Rightarrow> prefs_doc \<Rightarrow> user_preferences" where
  "doc_to_prefs uid prefs =
     \<lparr>user_id = uid,
      enabled_categories = set (doc_enabled_categories prefs),
      keywords_list = doc_keywords prefs,
      min_liquidity = doc_min_liquidity prefs,
      min_volume = doc_min_volume prefs,
      notify_on_launch = doc_notify_on_launch prefs,
      last_notified = map (\<lambda>(k, s). (k, Txt s)) (doc_last_notified prefs)\<rparr>"

text \<open>The loop of \<^verbatim>\<open>load_data\<close>. A key that \<^verbatim>\<open>int\<close> rejects raises \<^verbatim>\<open>ValueError\<close>, which
  \<^verbatim>\<open>except Exception\<close> logs: the users read so far stay, the rest are not read.\<close>

fun load_users :: "pylib \<Rightarrow> (pystr \<times> prefs_doc) list \<Rightarrow> (int \<times> user_preferences) list
    \<Rightarrow> (int \<times> user_preferences) list" where
  "load_users lib [] ups = ups"
| "load_users lib ((user_id_str, prefs) # rest) ups =
     (case int_str lib user_id_str of
        None \<Rightarrow> ups
      | Some uid \<Rightarrow> load_users lib rest (AList.update uid (doc_to_prefs uid prefs) ups))"

definition load_data :: "pylib \<Rightarrow> bot \<Rightarrow> bot" where
  "load_data lib b =
     (case data_file b of
        None \<Rightarrow> b
      | Some data \<Rightarrow>
          b\<lparr>seen_markets := set (doc_seen_markets data),
            user_prefs := load_users lib (doc_user_prefs data) (user_prefs b)\<rparr>)"

text \<open>The bot that \<^verbatim>\<open>__init__\<close> builds, started beside a given file.\<close>

definition fresh_bot :: "data_doc option \<Rightarrow> bot" where
  "fresh_bot f = \<lparr>seen_markets = {}, user_prefs = [], outbox = [], data_file = f\<rparr>"

subsection \<open>Notification system\<close>

fun join :: "pystr \<Rightarrow> pystr list \<Rightarrow> pystr" where
  "join sep [] = []"
| "join sep [x] = x"
| "join sep (x # y # ys) = x @ sep @ join sep (y # ys)"

definition render_message :: "market \<Rightarrow> int \<Rightarrow> message" where
  "render_message m days_left =
     \<lparr>msg_question = question m,
      msg_volume = volume m,
      msg_liquidity = liquidity m,
      msg_category = (case map_of CATEGORIES (category m) of None \<Rightarrow> category m | Some name \<Rightarrow> name),
      msg_expiry = expiry m,
      msg_days_left = days_left,
      msg_tags = (if tags m \<noteq> [] then join (lit '', '') (take 5 (tags m)) else lit ''None''),
      msg_url = url m\<rparr>"

text \<open>
  The cooldown test \<^verbatim>\<open>last_notified and datetime.now() - last_notified < timedelta(hours=1)\<close>.
  A \<^verbatim>\<open>datetime\<close> is always truthy; a text is truthy unless empty, and subtracting a text
  from a \<^verbatim>\<open>datetime\<close> raises \<^verbatim>\<open>TypeError\<close>.
\<close>

definition recently_notified :: "int \<Rightarrow> stamp option \<Rightarrow> error + bool" where
  "recently_notified now stored =
     (case stored of
        None \<Rightarrow> Inr False
      | Some (Txt s) \<Rightarrow> if s = [] then Inr False else Inl TypeError
      | Some (Dt d) \<Rightarrow>
          (case datetime_sub (Naive now) d of
             Inl e \<Rightarrow> Inl e
           | Inr delta \<Rightarrow> Inr (delta < timedelta_hours 1)))"

definition send_market_alert :: "call_env \<Rightarrow> int \<Rightarrow> market \<Rightarrow> bot \<Rightarrow> bot outcome" where
  "send_market_alert cenv uid m b =
     (case map_of (user_prefs b) uid of
        None \<Rightarrow> Done b
      | Some prefs \<Rightarrow>
          if \<not> notify_on_launch prefs then Done b
          else
            (case recently_notified (now_check cenv) (map_of (last_notified prefs) (market_id m)) of
               Inl e \<Rightarrow> Raised e b
             | Inr True \<Rightarrow> Done b
             | Inr False \<Rightarrow>
                 (case datetime_sub (expiry m) (Aware (now_utc cenv)) of
                    Inl e \<Rightarrow> Raised e b
                  | Inr time_to_expiry \<Rightarrow>
                      (let days_left = days time_to_expiry;
                           message = render_message m days_left;
                           b1 = b\<lparr>outbox := outbox b @ [(uid, message)]\<rparr>
                       in if delivered cenv
                          then Done (b1\<lparr>user_prefs :=
                                 AList.update uid
                                   (prefs\<lparr>last_notified :=
                                      AList.update (market_id m) (Dt (Naive (now_sent cenv)))
                                        (last_notified prefs)\<rparr>)
                                   (user_prefs b1)\<rparr>)
                          else Done b1))))"

text \<open>
  \<^verbatim>\<open>self.mark_matches_preferences\<close> is an attribute lookup on the bot. The class defines one
  method that takes a market and a preference record and returns a truth value,
  \<^verbatim>\<open>market_matches_preferences\<close>; a lookup of any other name for it raises
  \<^verbatim>\<open>AttributeError\<close>.
\<close>

definition getattr_predicate :: "pylib \<Rightarrow> string \<Rightarrow> error + (market \<Rightarrow> user_preferences \<Rightarrow> bool)" where
  "getattr_predicate lib name =
     (if name = ''market_matches_preferences'' then Inr (market_matches_preferences lib)
      else Inl AttributeError)"

text \<open>The inner loop of \<^verbatim>\<open>check_new_markets\<close> over \<^verbatim>\<open>self.user_prefs.items()\<close>; \<open>cev uid\<close> is
  the environment of the call for user \<open>uid\<close>.\<close>

fun notify_users :: "pylib \<Rightarrow> (int \<Rightarrow> call_env) \<Rightarrow> market \<Rightarrow> (int \<times> user_preferences) list \<Rightarrow> bot
    \<Rightarrow> bot outcome" where
  "notify_users lib cev m [] b = Done b"
| "notify_users lib cev m ((uid, prefs) # rest) b =
     (case getattr_predicate lib ''mark_matches_preferences'' of
        Inl e \<Rightarrow> Raised e b
      | Inr matches \<Rightarrow>
          if matches m prefs
          then (case send_market_alert (cev uid) uid m b of
                  Raised e b' \<Rightarrow> Raised e b'
                | Done b' \<Rightarrow> notify_users lib cev m rest b')
          else notify_users lib cev m rest b)"

text \<open>The outer loop over \<^verbatim>\<open>new_markets\<close>; \<open>ev i\<close> is the environment for the \<open>i\<close>-th of them.\<close>

fun process_new_markets :: "pylib \<Rightarrow> (nat \<Rightarrow> int \<Rightarrow> call_env) \<Rightarrow> nat \<Rightarrow> market list \<Rightarrow> bot
    \<Rightarrow> bot outcome" where
  "process_new_markets lib ev i [] b = Done b"
| "process_new_markets lib ev i (m # ms) b =
     (let b1 = b\<lparr>seen_markets := insert (market_id m) (seen_markets b)\<rparr>
      in case notify_users lib (ev i) m (user_prefs b1) b1 of
           Raised e b2 \<Rightarrow> Raised e b2
         | Done b2 \<Rightarrow> process_new_markets lib ev (Suc i) ms b2)"

text \<open>\<open>markets\<close> is what \<^verbatim>\<open>fetch_markets\<close> returned (the empty list after a failed fetch).\<close>

definition new_markets :: "market list \<Rightarrow> bot \<Rightarrow> market list" where
  "new_markets markets b = filter (\<lambda>m. market_id m \<notin> seen_markets b) markets"

definition check_new_markets :: "pylib \<Rightarrow> (nat \<Rightarrow> int \<Rightarrow> call_env) \<Rightarrow> market list \<Rightarrow> bot
    \<Rightarrow> bot outcome" where
  "check_new_markets lib ev markets b =
     (case process_new_markets lib ev 0 (new_markets markets b) b of
        Raised e b' \<Rightarrow> Raised e b'
      | Done b' \<Rightarrow> Done (save_data lib b'))"

subsection \<open>Command handlers\<close>

definition default_preferences :: "int \<Rightarrow> user_preferences" where
  "default_preferences uid =
     \<lparr>user_id = uid,
      enabled_categories = set (map fst CATEGORIES),
      keywords_list = [],
      min_liquidity = Num 0,
      min_volume = Num 0,
      notify_on_launch = True,
      last_notified = []\<rparr>"

text \<open>The state change of \<^verbatim>\<open>/start\<close>; the welcome reply follows in either case.\<close>

definition cmd_start :: "pylib \<Rightarrow> int \<Rightarrow> bot \<Rightarrow> bot" where
  "cmd_start lib uid b =
     (if map_of (user_prefs b) uid = None
      then save_data lib (b\<lparr>user_prefs := user_prefs b @ [(uid, default_preferences uid)]\<rparr>)
      else b)"

text \<open>The market that \<^verbatim>\<open>/test\<close> builds: \<open>t1\<close> and \<open>t2\<close> are its two readings of
  \<^verbatim>\<open>datetime.now()\<close>.\<close>

definition test_market :: "int \<Rightarrow> int \<Rightarrow> market" where
  "test_market t1 t2 =
     \<lparr>market_id = lit ''test_123'',
      question = lit ''Test: Will this notification work?'',
      description = lit ''This is a test market to verify notifications are working properly.'',
      category = lit ''crypto'',
      volume = Num 1500.50,
      liquidity = Num 750.25,
      expiry = datetime_add (Naive t1) (timedelta_days 30),
      url = lit ''https://opinion.trade/market/test'',
      created_at = Naive t2,
      tags = [lit ''test'', lit ''notification'']\<rparr>"

definition cmd_test_alert :: "call_env \<Rightarrow> int \<Rightarrow> int \<Rightarrow> int \<Rightarrow> bot \<Rightarrow> bot outcome" where
  "cmd_test_alert cenv t1 t2 uid b = send_market_alert cenv uid (test_market t1 t2) b"

subsection \<open>API integration\<close>

text \<open>
  One raw record of the API response: a dict, of which the parser reads nine keys
  (\<open>None\<close>: the key is absent). The values the parser converts are arbitrary JSON values;
  the three it copies unchanged (\<^verbatim>\<open>question\<close>, \<^verbatim>\<open>description\<close>, \<^verbatim>\<open>tags\<close>) have the types
  that \<^verbatim>\<open>Market\<close> declares for them.
\<close>

record raw_item =
  item_id :: "json option"
  item_question :: "pystr option"
  item_description :: "pystr option"
  item_category :: "json option"
  item_volume :: "json option"
  item_liquidity :: "json option"
  item_expiry :: "json option"
  item_created_at :: "json option"
  item_tags :: "pystr list option"

text \<open>\<^verbatim>\<open>str(v)\<close>, and \<^verbatim>\<open>{v}\<close> in an f-string, for a JSON value.\<close>

definition py_str :: "pylib \<Rightarrow> json \<Rightarrow> pystr" where
  "py_str lib v = (case v of JStr s \<Rightarrow> s | _ \<Rightarrow> str_json lib v)"

text \<open>\<^verbatim>\<open>float(v)\<close>: a float is returned as it is; an integer up to \<open>2 ^ 53\<close> in magnitude
  converts exactly, a larger one rounds or raises \<^verbatim>\<open>OverflowError\<close>; a string parses or
  raises \<^verbatim>\<open>ValueError\<close>; \<^verbatim>\<open>None\<close>, a list or a dict raises \<^verbatim>\<open>TypeError\<close>.\<close>

definition py_float :: "pylib \<Rightarrow> json \<Rightarrow> error + pyfloat" where
  "py_float lib v =
     (case v of
        JInt i \<Rightarrow>
          if \<bar>i\<bar> \<le> 9007199254740992 then Inr (Num (of_int i))
          else (case float_int lib i of None \<Rightarrow> Inl OverflowError | Some r \<Rightarrow> Inr r)
      | JFloat r \<Rightarrow> Inr r
      | JBool t \<Rightarrow> Inr (Num (if t then 1 else 0))
      | JStr s \<Rightarrow> (case float_str lib s of None \<Rightarrow> Inl ValueError | Some r \<Rightarrow> Inr r)
      | JNull \<Rightarrow> Inl TypeError
      | JList xs \<Rightarrow> Inl TypeError
      | JDict kvs \<Rightarrow> Inl TypeError)"

text \<open>\<^verbatim>\<open>v.lower()\<close>: only a string has the method.\<close>

definition py_lower :: "pylib \<Rightarrow> json \<Rightarrow> error + pystr" where
  "py_lower lib v = (case v of JStr s \<Rightarrow> Inr (str_lower lib s) | _ \<Rightarrow> Inl AttributeError)"

definition replace_Z :: "pystr \<Rightarrow> pystr" where
  "replace_Z s = concat (map (\<lambda>c. if c = of_char (CHR ''Z'') then lit ''+00:00'' else [c]) s)"

text \<open>\<^verbatim>\<open>datetime.fromisoformat(item[key].replace('Z', '+00:00'))\<close> for a required key.\<close>

definition parse_timestamp :: "pylib \<Rightarrow> json option \<Rightarrow> error + datetime" where
  "parse_timestamp lib field =
     (case field of
        None \<Rightarrow> Inl KeyError
      | Some (JStr s) \<Rightarrow>
          (case fromisoformat lib (replace_Z s) of None \<Rightarrow> Inl ValueError | Some d \<Rightarrow> Inr d)
      | Some _ \<Rightarrow> Inl AttributeError)"

text \<open>The call \<^verbatim>\<open>Market(...)\<close>: its arguments are evaluated in the order written, and the
  first exception ends it.\<close>

definition parse_item :: "pylib \<Rightarrow> raw_item \<Rightarrow> error + market" where
  "parse_item lib item =
     (case item_id item of
        None \<Rightarrow> Inl KeyError
      | Some idv \<Rightarrow>
     (case py_lower lib (case item_category item of None \<Rightarrow> JStr (lit ''other'') | Some v \<Rightarrow> v) of
        Inl e \<Rightarrow> Inl e
      | Inr cat \<Rightarrow>
     (case py_float lib (case item_volume item of None \<Rightarrow> JInt 0 | Some v \<Rightarrow> v) of
        Inl e \<Rightarrow> Inl e
      | Inr vol \<Rightarrow>
     (case py_float lib (case item_liquidity item of None \<Rightarrow> JInt 0 | Some v \<Rightarrow> v) of
        Inl e \<Rightarrow> Inl e
      | Inr liq \<Rightarrow>
     (case parse_timestamp lib (item_expiry item) of
        Inl e \<Rightarrow> Inl e
      | Inr ex \<Rightarrow>
     (case parse_timestamp lib (item_created_at item) of
        Inl e \<Rightarrow> Inl e
      | Inr cr \<Rightarrow>
          Inr \<lparr>market_id = py_str lib idv,
               question = (case item_question item of None \<Rightarrow> lit ''No title'' | Some q \<Rightarrow> q),
               description = (case item_description item of None \<Rightarrow> [] | Some d \<Rightarrow> d),
               category = cat,
               volume = vol,
               liquidity = liq,
               expiry = ex,
               url = lit ''https://opinion.trade/market/'' @ py_str lib idv,
               created_at = cr,
               tags = (case item_tags item of None \<Rightarrow> [] | Some ts \<Rightarrow> ts)\<rparr>))))))"

text \<open>The loop of \<^verbatim>\<open>parse_markets\<close>, with the markets built so far and the number of
  warnings logged: \<^verbatim>\<open>except (KeyError, ValueError)\<close> logs and continues, any other
  exception leaves the function.\<close>

fun parse_loop :: "pylib \<Rightarrow> raw_item list \<Rightarrow> market list \<Rightarrow> nat \<Rightarrow> error + (market list \<times> nat)" where
  "parse_loop lib [] markets warnings = Inr (markets, warnings)"
| "parse_loop lib (item # rest) markets warnings =
     (case parse_item lib item of
        Inr market \<Rightarrow> parse_loop lib rest (markets @ [market]) warnings
      | Inl e \<Rightarrow>
          if e = KeyError \<or> e = ValueError then parse_loop lib rest markets (Suc warnings)
          else Inl e)"

text \<open>\<open>api_data\<close> is the value under the key \<^verbatim>\<open>markets\<close> of the response (\<open>None\<close>: no such
  key, so \<^verbatim>\<open>api_data.get('markets', [])\<close> is the empty list).\<close>

definition parse_markets :: "pylib \<Rightarrow> raw_item list option \<Rightarrow> error + (market list \<times> nat)" where
  "parse_markets lib api_data =
     parse_loop lib (case api_data of None \<Rightarrow> [] | Some items \<Rightarrow> items) [] 0"

subsection \<open>Reference definitions and example inputs\<close>

text \<open>The days-remaining figure as the specification words it: the difference of the expiry
  and the current time (both in microseconds), in days, rounded up.\<close>

definition days_remaining_ceil :: "int \<Rightarrow> int \<Rightarrow> int" where
  "days_remaining_ceil e now = \<lceil>real_of_int (e - now) / 86400000000\<rceil>"

text \<open>The scenario's market with its open fields filled in, a market and a subscriber whose
  keyword spans the boundary of title and description, a bot with one subscriber and no
  file, one record of the API as the parser expects it, and an instance of the library
  functions defined on the few values the examples use.\<close>

definition example_market :: "datetime \<Rightarrow> market" where
  "example_market e =
     scenario_market (lit ''Will BTC close above 100k?'') (lit ''Daily close on the expiry date'') e
       (lit ''https://opinion.trade/market/m1'') (Aware 0) [lit ''btc'']"

definition boundary_market :: market where
  "boundary_market =
     \<lparr>market_id = lit ''m2'', question = lit ''Fed rate'', description = lit ''cut in June'',
      category = lit ''finance'', volume = Num 10, liquidity = Num 10, expiry = Aware 0,
      url = lit ''https://opinion.trade/market/m2'', created_at = Aware 0, tags = []\<rparr>"

definition boundary_prefs :: user_preferences where
  "boundary_prefs =
     \<lparr>user_id = 1, enabled_categories = {}, keywords_list = [lit ''rate cut''],
      min_liquidity = Num 0, min_volume = Num 0, notify_on_launch = True, last_notified = []\<rparr>"

text \<open>The preferences after \<^verbatim>\<open>/filters nan nan\<close>: \<^verbatim>\<open>float("nan")\<close> raises no \<^verbatim>\<open>ValueError\<close>.\<close>

definition nan_prefs :: user_preferences where
  "nan_prefs =
     \<lparr>user_id = 1, enabled_categories = {}, keywords_list = [],
      min_liquidity = NaN, min_volume = NaN, notify_on_launch = True, last_notified = []\<rparr>"

definition example_bot :: "user_preferences \<Rightarrow> bot" where
  "example_bot prefs = (fresh_bot None)\<lparr>user_prefs := [(user_id prefs, prefs)]\<rparr>"

text \<open>The bot in the middle of a cycle that dispatches m1 (the identifier is in the ledger),
  and the environment of a cycle 61 minutes later, in which the channel works.\<close>

definition ledger_bot :: bot where
  "ledger_bot = (example_bot (default_preferences 1))\<lparr>seen_markets := {lit ''m1''}\<rparr>"

definition later_env :: "nat \<Rightarrow> int \<Rightarrow> call_env" where
  "later_env i uid =
     \<lparr>now_check = 3660000000, now_utc = 3660000000, delivered = True, now_sent = 3660000000\<rparr>"

definition example_item :: "pystr \<Rightarrow> raw_item" where
  "example_item i =
     \<lparr>item_id = Some (JStr i), item_question = Some (lit ''Will BTC close above 100k?''),
      item_description = None, item_category = Some (JStr (lit ''Crypto'')),
      item_volume = Some (JInt 1500), item_liquidity = Some (JFloat (Num 750)),
      item_expiry = Some (JStr (lit ''2030-01-01T00:00:00Z'')),
      item_created_at = Some (JStr (lit ''2026-01-01T00:00:00Z'')), item_tags = None\<rparr>"

text \<open>\<^verbatim>\<open>str.lower\<close> as it acts on ASCII text.\<close>

definition ascii_lower :: "pystr \<Rightarrow> pystr" where
  "ascii_lower s = map (\<lambda>c. if 65 \<le> c \<and> c \<le> 90 then c + 32 else c) s"

definition example_lib :: pylib where
  "example_lib =
     \<lparr>str_lower = ascii_lower,
      str_int = (\<lambda>i. if i = 1 then lit ''1'' else lit ''2''),
      int_str = (\<lambda>s. if s = lit ''1'' then Some 1 else if s = lit ''2'' then Some 2 else None),
      str_datetime = (\<lambda>d. lit ''2026-01-01 12:00:00''),
      list_set = (\<lambda>S. filter (\<lambda>c. c \<in> S) (map fst CATEGORIES)),
      fromisoformat = (\<lambda>s. None),
      float_str = (\<lambda>s. None),
      float_int = (\<lambda>i. None),
      str_json = (\<lambda>v. lit ''null'')\<rparr>"

text \<open>
  \<^verbatim>\<open>str.lower\<close> as it acts on text made of ASCII and the Greek capital letters alpha
  (U+0391, code point 913) and sigma (U+03A3, 931): capital alpha becomes small alpha
  (945), and capital sigma becomes the small final sigma (U+03C2, 962) when a letter
  precedes it and no letter follows it, and the small sigma (U+03C3, 963) otherwise. So
  \<^verbatim>\<open>str.lower\<close> of a part of a text need not be a part of \<^verbatim>\<open>str.lower\<close> of the text.
\<close>

definition cased :: "codepoint \<Rightarrow> bool" where
  "cased c = ((65 \<le> c \<and> c \<le> 90) \<or> (97 \<le> c \<and> c \<le> 122) \<or> c \<in> {913, 931, 945, 962, 963})"

fun greek_lower_from :: "bool \<Rightarrow> pystr \<Rightarrow> pystr" where
  "greek_lower_from prev [] = []"
| "greek_lower_from prev (c # cs) =
     (if c = 931
      then (if prev \<and> \<not> (case cs of [] \<Rightarrow> False | d # ds \<Rightarrow> cased d) then 962 else 963)
      else if 65 \<le> c \<and> c \<le> 90 then c + 32
      else if c = 913 then 945
      else c) # greek_lower_from (cased c) cs"

definition greek_lib :: pylib where
  "greek_lib = example_lib\<lparr>str_lower := greek_lower_from False\<rparr>"

text \<open>A market whose title is capital alpha followed by capital sigma, with an empty
  description, and a subscriber whose one keyword is capital sigma.\<close>

definition sigma_market :: market where
  "sigma_market = boundary_market\<lparr>question := [913, 931], description := []\<rparr>"

definition sigma_prefs :: user_preferences where
  "sigma_prefs = boundary_prefs\<lparr>keywords_list := [[931]]\<rparr>"

section \<open>Properties of the filter\<close>

lemma lit_eq_iff [simp]: "lit a = lit b \<longleftrightarrow> a = b"
  by (simp add: lit_def inj_map_eq_map inj_def)

lemma lit_Nil [simp]: "lit [] = []"
  by (simp add: lit_def)

lemma lit_eq_Nil [simp]: "lit a = [] \<longleftrightarrow> a = []"
  by (simp add: lit_def)

text \<open>On floats that are not NaN, \<^verbatim>\<open>>=\<close> is the negation of \<^verbatim>\<open><\<close>; with a NaN on either side
  both are false.\<close>

lemma float_ge_iff_not_lt:
  "a \<noteq> NaN \<Longrightarrow> b \<noteq> NaN \<Longrightarrow> float_ge a b \<longleftrightarrow> \<not> float_lt a b"
  by (cases a; cases b) auto

lemma float_nan_compare:
  "\<not> float_lt a NaN" "\<not> float_lt NaN b" "\<not> float_ge a NaN" "\<not> float_ge NaN b"
  by (cases a; cases b; simp)+

text \<open>What the filter computes, for all inputs: the two amount tests are "not less than".\<close>

lemma matches_unfolded:
  "market_matches_preferences lib m prefs \<longleftrightarrow>
     category_predicate m prefs \<and> \<not> float_lt (liquidity m) (min_liquidity prefs) \<and>
     \<not> float_lt (volume m) (min_volume prefs) \<and> keyword_predicate_spaced lib m prefs"
  by (auto simp: market_matches_preferences_def category_predicate_def
      keyword_predicate_spaced_def case_insensitive_substring_def list_ex_iff Let_def)

text \<open>
  C1 (as the claim states it, refuted). First, the claim takes the keyword predicate over
  the title concatenated with the description. The source joins the two with a space
  (\<^verbatim>\<open>f"{market.question} {market.description}"\<close>), so a keyword that spans the boundary
  decides differently: for the title "Fed rate", the description "cut in June" and the
  keyword "rate cut" the source matches, while the keyword is no substring of
  "Fed ratecut in June". Second, the claim takes the amount predicates as \<^verbatim>\<open>>=\<close>, while the
  source rejects on \<^verbatim>\<open><\<close>: with the thresholds NaN, which \<^verbatim>\<open>/filters nan nan\<close> stores, the
  source matches although \<^verbatim>\<open>liquidity >= min_liquidity\<close> is false. Third, the source
  compares \<^verbatim>\<open>str.lower\<close> of the keyword with \<^verbatim>\<open>str.lower\<close> of the text, and \<^verbatim>\<open>str.lower\<close>
  depends on the context: the keyword capital sigma occurs as it is in the title capital
  alpha, capital sigma, yet the source does not match, since the title is lowered to small
  alpha, final sigma and the keyword to the non-final small sigma.
\<close>

theorem matches_concat_counterexample:
  "market_matches_preferences example_lib boundary_market boundary_prefs
   \<and> \<not> keyword_predicate_concat example_lib boundary_market boundary_prefs
   \<and> \<not> (market_matches_preferences example_lib boundary_market boundary_prefs \<longleftrightarrow>
          category_predicate boundary_market boundary_prefs \<and>
          liquidity_predicate boundary_market boundary_prefs \<and>
          volume_predicate boundary_market boundary_prefs \<and>
          keyword_predicate_concat example_lib boundary_market boundary_prefs)
   \<and> market_matches_preferences example_lib boundary_market nan_prefs
   \<and> \<not> liquidity_predicate boundary_market nan_prefs
   \<and> \<not> volume_predicate boundary_market nan_prefs
   \<and> sublist [931] (question sigma_market @ lit '' '' @ description sigma_market)
   \<and> keywords_list sigma_prefs = [[931]]
   \<and> \<not> market_matches_preferences greek_lib sigma_market sigma_prefs"
  by (simp add: market_matches_preferences_def keyword_predicate_concat_def
      case_insensitive_substring_def liquidity_predicate_def volume_predicate_def
      example_lib_def ascii_lower_def lit_def sublist_code greek_lib_def cased_def
      boundary_market_def boundary_prefs_def nan_prefs_def sigma_market_def sigma_prefs_def)

text \<open>
  C1 (amended). For every market and every preference record whose liquidity, volume and
  two thresholds are not NaN, the filter returns true if and only if the category
  predicate, the liquidity predicate (\<^verbatim>\<open>liquidity >= min_liquidity\<close>), the volume predicate
  (\<^verbatim>\<open>volume >= min_volume\<close>) and the keyword predicate all hold, where the keyword predicate
  is true when the keyword list is empty and otherwise true iff at least one keyword is a
  case-insensitive substring (its \<^verbatim>\<open>str.lower\<close> occurs in the \<^verbatim>\<open>str.lower\<close> of the text) of
  the title, a single space and the description joined in that order.
  The concrete scenario holds: the market m1 (crypto, liquidity 750, volume 1500) matches
  the subscriber with categories {crypto}, thresholds 100 and 500 and no keywords; it
  matches no subscriber whose categories are {politics}; and it matches no subscriber
  with an empty category set and minimum liquidity 1000.
\<close>

theorem matches_iff_four_predicates:
  "(liquidity m \<noteq> NaN \<and> min_liquidity prefs \<noteq> NaN \<and> volume m \<noteq> NaN \<and> min_volume prefs \<noteq> NaN
      \<longrightarrow>
      (market_matches_preferences lib m prefs \<longleftrightarrow>
         category_predicate m prefs \<and> liquidity_predicate m prefs \<and>
         volume_predicate m prefs \<and> keyword_predicate_spaced lib m prefs))
   \<and> market_matches_preferences lib (scenario_market q d e u c ts)
        \<lparr>user_id = i1, enabled_categories = {lit ''crypto''}, keywords_list = [],
         min_liquidity = Num 100, min_volume = Num 500, notify_on_launch = n1,
         last_notified = l1\<rparr>
   \<and> \<not> market_matches_preferences lib (scenario_market q d e u c ts)
        \<lparr>user_id = i2, enabled_categories = {lit ''politics''}, keywords_list = k2,
         min_liquidity = a2, min_volume = b2, notify_on_launch = n2, last_notified = l2\<rparr>
   \<and> \<not> market_matches_preferences lib (scenario_market q d e u c ts)
        \<lparr>user_id = i3, enabled_categories = {}, keywords_list = k3,
         min_liquidity = Num 1000, min_volume = b3, notify_on_launch = n3,
         last_notified = l3\<rparr>"
proof -
  have general: "market_matches_preferences lib m prefs \<longleftrightarrow>
      category_predicate m prefs \<and> liquidity_predicate m prefs \<and>
      volume_predicate m prefs \<and> keyword_predicate_spaced lib m prefs"
    if "liquidity m \<noteq> NaN" "min_liquidity prefs \<noteq> NaN" "volume m \<noteq> NaN" "min_volume prefs \<noteq> NaN"
    using that
    by (simp add: matches_unfolded liquidity_predicate_def volume_predicate_def
        float_ge_iff_not_lt)
  have s1: "market_matches_preferences lib (scenario_market q d e u c ts)
        \<lparr>user_id = i1, enabled_categories = {lit ''crypto''}, keywords_list = [],
         min_liquidity = Num 100, min_volume = Num 500, notify_on_launch = n1,
         last_notified = l1\<rparr>"
    by (simp add: market_matches_preferences_def scenario_market_def)
  have s2: "\<not> market_matches_preferences lib (scenario_market q d e u c ts)
        \<lparr>user_id = i2, enabled_categories = {lit ''politics''}, keywords_list = k2,
         min_liquidity = a2, min_volume = b2, notify_on_launch = n2, last_notified = l2\<rparr>"
    by (simp add: market_matches_preferences_def scenario_market_def)
  have s3: "\<not> market_matches_preferences lib (scenario_market q d e u c ts)
        \<lparr>user_id = i3, enabled_categories = {}, keywords_list = k3,
         min_liquidity = Num 1000, min_volume = b3, notify_on_launch = n3,
         last_notified = l3\<rparr>"
    by (simp add: market_matches_preferences_def scenario_market_def)
  from general s1 s2 s3 show ?thesis by blast
qed

text \<open>C1, witness: a market that passes all four predicates, the keyword one through
  "btc" in the lower-cased title.\<close>

theorem matches_iff_four_predicates_witness:
  "market_matches_preferences example_lib
     \<lparr>market_id = lit ''m3'', question = lit ''Will BTC close above 100k?'',
      description = lit ''Daily close'', category = lit ''crypto'', volume = Num 1500,
      liquidity = Num 750, expiry = Aware 0, url = lit ''https://opinion.trade/market/m3'',
      created_at = Aware 0, tags = [lit ''btc'']\<rparr>
     \<lparr>user_id = 7, enabled_categories = {lit ''crypto'', lit ''finance''},
      keywords_list = [lit ''ETH'', lit ''btc''], min_liquidity = Num 100, min_volume = Num 500,
      notify_on_launch = True, last_notified = []\<rparr>"
  using matches_iff_four_predicates
    [of "\<lparr>market_id = lit ''m3'', question = lit ''Will BTC close above 100k?'',
      description = lit ''Daily close'', category = lit ''crypto'', volume = Num 1500,
      liquidity = Num 750, expiry = Aware 0, url = lit ''https://opinion.trade/market/m3'',
      created_at = Aware 0, tags = [lit ''btc'']\<rparr>"
     "\<lparr>user_id = 7, enabled_categories = {lit ''crypto'', lit ''finance''},
      keywords_list = [lit ''ETH'', lit ''btc''], min_liquidity = Num 100, min_volume = Num 500,
      notify_on_launch = True, last_notified = []\<rparr>" example_lib]
  by (simp add: category_predicate_def liquidity_predicate_def volume_predicate_def
      keyword_predicate_spaced_def case_insensitive_substring_def example_lib_def
      ascii_lower_def lit_def sublist_code)

section \<open>Properties of the dispatcher\<close>

lemmas ev_defs = send_market_alert_def recently_notified_def default_preferences_def CATEGORIES_def
  render_message_def days_def timedelta_hours_def timedelta_days_def scenario_market_def
  fresh_bot_def example_market_def example_bot_def Let_def

text \<open>The path of \<^verbatim>\<open>send_market_alert\<close> that reaches \<^verbatim>\<open>send_message\<close>.\<close>

lemma send_reaches_channel:
  "map_of (user_prefs b) uid = Some prefs \<Longrightarrow> notify_on_launch prefs \<Longrightarrow>
   recently_notified (now_check cenv) (map_of (last_notified prefs) (market_id m)) = Inr False \<Longrightarrow>
   datetime_sub (expiry m) (Aware (now_utc cenv)) = Inr td \<Longrightarrow>
   send_market_alert cenv uid m b =
     (if delivered cenv
      then Done (b\<lparr>outbox := outbox b @ [(uid, render_message m (days td))],
                  user_prefs := AList.update uid
                     (prefs\<lparr>last_notified :=
                        AList.update (market_id m) (Dt (Naive (now_sent cenv))) (last_notified prefs)\<rparr>)
                     (user_prefs b)\<rparr>)
      else Done (b\<lparr>outbox := outbox b @ [(uid, render_message m (days td))]\<rparr>))"
  by (simp add: send_market_alert_def Let_def)

text \<open>Conversely, a call that added an entry to the outbox took that path.\<close>

lemma send_attempt_path:
  "outbox (state_of (send_market_alert cenv uid m b)) = outbox b @ [att] \<Longrightarrow>
   \<exists>prefs td. map_of (user_prefs b) uid = Some prefs \<and> notify_on_launch prefs \<and>
     recently_notified (now_check cenv) (map_of (last_notified prefs) (market_id m)) = Inr False \<and>
     datetime_sub (expiry m) (Aware (now_utc cenv)) = Inr td \<and>
     att = (uid, render_message m (days td))"
  by (auto simp: send_market_alert_def Let_def
      split: option.splits sum.splits if_splits bool.splits)

lemma send_keeps_ledger:
  "seen_markets (state_of (send_market_alert cenv uid m b)) = seen_markets b"
  by (auto simp: send_market_alert_def Let_def
      split: option.splits sum.splits if_splits bool.splits)

lemma recently_notified_later:
  assumes "recently_notified t st = Inr False" and "t \<le> t'"
  shows "recently_notified t' st = Inr False"
proof (cases st)
  case None
  then show ?thesis by (simp add: recently_notified_def)
next
  case (Some v)
  show ?thesis
  proof (cases v)
    case (Txt s)
    with Some show ?thesis
      using assms by (auto simp: recently_notified_def split: if_splits)
  next
    case (Dt d)
    with Some show ?thesis
      using assms by (cases d) (auto simp: recently_notified_def split: if_splits)
  qed
qed

lemma datetime_sub_aware_any:
  "datetime_sub d (Aware t) = Inr td \<Longrightarrow> \<exists>td'. datetime_sub d (Aware t') = Inr td'"
  by (cases d) auto

text \<open>The cooldown on a market whose expiry is timezone-aware: a timestamp younger than one
  hour suppresses the send without an error; with no timestamp, or one at least an hour
  old, one send is attempted and, when it succeeds, the timestamp of this subscriber for
  this market becomes the reading of the clock after the send, while the records of the
  other subscribers and the timestamps of the other markets stay as they were.\<close>

lemma cooldown_suppresses:
  "map_of (user_prefs b) uid = Some prefs \<Longrightarrow> notify_on_launch prefs \<Longrightarrow>
   map_of (last_notified prefs) (market_id m) = Some (Dt (Naive t)) \<Longrightarrow>
   now_check cenv - t < timedelta_hours 1 \<Longrightarrow>
   send_market_alert cenv uid m b = Done b"
  by (simp add: send_market_alert_def recently_notified_def)

lemma cooldown_elapsed_sends_once:
  assumes "map_of (user_prefs b) uid = Some prefs" and "notify_on_launch prefs"
      and "map_of (last_notified prefs) (market_id m) = None
           \<or> (\<exists>t. map_of (last_notified prefs) (market_id m) = Some (Dt (Naive t))
                 \<and> timedelta_hours 1 \<le> now_check cenv - t)"
      and "expiry m = Aware e" and "delivered cenv"
  shows "\<exists>b' prefs'. send_market_alert cenv uid m b = Done b'
           \<and> outbox b' = outbox b @ [(uid, render_message m (days (e - now_utc cenv)))]
           \<and> map_of (user_prefs b') = (map_of (user_prefs b))(uid \<mapsto> prefs')
           \<and> prefs' = prefs\<lparr>last_notified := last_notified prefs'\<rparr>
           \<and> map_of (last_notified prefs')
               = (map_of (last_notified prefs))(market_id m \<mapsto> Dt (Naive (now_sent cenv)))"
proof -
  have r: "recently_notified (now_check cenv) (map_of (last_notified prefs) (market_id m)) = Inr False"
    using assms(3) by (auto simp: recently_notified_def)
  have d: "datetime_sub (expiry m) (Aware (now_utc cenv)) = Inr (e - now_utc cenv)"
    using assms(4) by simp
  let ?p = "prefs\<lparr>last_notified :=
              AList.update (market_id m) (Dt (Naive (now_sent cenv))) (last_notified prefs)\<rparr>"
  let ?b = "b\<lparr>outbox := outbox b @ [(uid, render_message m (days (e - now_utc cenv)))],
              user_prefs := AList.update uid ?p (user_prefs b)\<rparr>"
  have "send_market_alert cenv uid m b = Done ?b"
    using send_reaches_channel [OF assms(1,2) r d] assms(5) by simp
  moreover have "outbox ?b = outbox b @ [(uid, render_message m (days (e - now_utc cenv)))]"
    by simp
  moreover have "map_of (user_prefs ?b) = (map_of (user_prefs b))(uid \<mapsto> ?p)"
    by (simp add: update_conv')
  moreover have "?p = prefs\<lparr>last_notified := last_notified ?p\<rparr>"
    by simp
  moreover have "map_of (last_notified ?p)
      = (map_of (last_notified prefs))(market_id m \<mapsto> Dt (Naive (now_sent cenv)))"
    by (simp add: update_conv')
  ultimately show ?thesis by blast
qed

text \<open>
  C8. For every subscriber whose notifications-enabled flag is false and for every market,
  \<^verbatim>\<open>send_market_alert\<close> returns at once with the state it was given: nothing is added to
  the outbox (no send is attempted) and no preference record changes, whatever the
  market and the subscriber's filters are.
\<close>

theorem disabled_subscriber_no_send:
  "map_of (user_prefs b) uid = Some prefs \<Longrightarrow> \<not> notify_on_launch prefs \<Longrightarrow>
   send_market_alert cenv uid m b = Done b"
  by (simp add: send_market_alert_def)

text \<open>C8, witness: a subscriber who switched alerts off and a market that matches the
  subscriber's filters.\<close>

theorem disabled_subscriber_no_send_witness:
  "market_matches_preferences example_lib (example_market (Aware 129600000000))
     ((default_preferences 1)\<lparr>notify_on_launch := False\<rparr>)
   \<and> send_market_alert \<lparr>now_check = 0, now_utc = 0, delivered = True, now_sent = 0\<rparr> 1
       (example_market (Aware 129600000000))
       (example_bot ((default_preferences 1)\<lparr>notify_on_launch := False\<rparr>))
     = Done (example_bot ((default_preferences 1)\<lparr>notify_on_launch := False\<rparr>))"
  using disabled_subscriber_no_send
    [of "example_bot ((default_preferences 1)\<lparr>notify_on_launch := False\<rparr>)" 1
        "(default_preferences 1)\<lparr>notify_on_launch := False\<rparr>"
        "\<lparr>now_check = 0, now_utc = 0, delivered = True, now_sent = 0\<rparr>"
        "example_market (Aware 129600000000)"]
  by (simp add: example_bot_def default_preferences_def fresh_bot_def example_market_def
      scenario_market_def market_matches_preferences_def CATEGORIES_def)

text \<open>
  C4 (as the claim states it, refuted). The claim lets a failed delivery be retried on a
  later cycle. A cycle has put the market's identifier into the ledger before it
  dispatches (line 260), and a later cycle dispatches only markets whose identifier is
  not in the ledger (line 256). Here the channel fails for subscriber 1 and market m1;
  61 minutes later the market is fetched again and the channel works, but the cycle
  classifies no market as new, makes no delivery attempt and only saves the state.
\<close>

theorem failed_delivery_no_retry_counterexample:
  "send_market_alert \<lparr>now_check = 0, now_utc = 0, delivered = False, now_sent = 0\<rparr> 1
     (example_market (Aware 129600000000)) ledger_bot
   = Done (ledger_bot
        \<lparr>outbox := [(1, render_message (example_market (Aware 129600000000)) 1)]\<rparr>)
   \<and> new_markets [example_market (Aware 129600000000)]
       (ledger_bot\<lparr>outbox := [(1, render_message (example_market (Aware 129600000000)) 1)]\<rparr>)
     = []
   \<and> outbox (state_of (check_new_markets example_lib later_env
        [example_market (Aware 129600000000)]
        (ledger_bot\<lparr>outbox := [(1, render_message (example_market (Aware 129600000000)) 1)]\<rparr>)))
     = [(1, render_message (example_market (Aware 129600000000)) 1)]"
  by (simp add: ev_defs ledger_bot_def check_new_markets_def new_markets_def save_data_def)

text \<open>
  C4 (amended). If \<^verbatim>\<open>send_market_alert\<close> makes a delivery attempt and the channel fails, the
  call returns normally, so the failure does not propagate to the caller, and the state is
  the one before the call but for the attempt recorded in the outbox: no subscriber's
  preference record is altered, and the last-notified entry of the pair is unset or as it
  was before the attempt. The cooldown therefore does not suppress a later dispatch for
  the pair: a later call of \<^verbatim>\<open>send_market_alert\<close>, at a clock reading not before the first,
  makes a delivery attempt again. No later cycle makes that call for a market whose
  identifier is in the ledger: such a market is not classified as new, and a cycle that
  fetches only that market dispatches nothing and saves the state.
\<close>

theorem failed_delivery_keeps_state:
  assumes attempt: "outbox (state_of (send_market_alert cenv uid m b)) = outbox b @ [att]"
      and failed: "\<not> delivered cenv"
  shows "send_market_alert cenv uid m b = Done (b\<lparr>outbox := outbox b @ [att]\<rparr>)
         \<and> user_prefs (state_of (send_market_alert cenv uid m b)) = user_prefs b
         \<and> (now_check cenv \<le> now_check cenv' \<longrightarrow>
              (\<exists>att'. outbox (state_of (send_market_alert cenv' uid m
                           (b\<lparr>outbox := outbox b @ [att]\<rparr>)))
                  = outbox b @ [att, att']))
         \<and> (market_id m \<in> seen_markets b \<longrightarrow>
              m \<notin> set (new_markets markets (b\<lparr>outbox := outbox b @ [att]\<rparr>))
              \<and> check_new_markets lib ev [m] (b\<lparr>outbox := outbox b @ [att]\<rparr>)
                  = Done (save_data lib (b\<lparr>outbox := outbox b @ [att]\<rparr>)))"
proof -
  from send_attempt_path [OF attempt] obtain prefs td where
    p: "map_of (user_prefs b) uid = Some prefs" "notify_on_launch prefs"
       "recently_notified (now_check cenv) (map_of (last_notified prefs) (market_id m)) = Inr False"
       "datetime_sub (expiry m) (Aware (now_utc cenv)) = Inr td"
       "att = (uid, render_message m (days td))"
    by blast
  have first: "send_market_alert cenv uid m b = Done (b\<lparr>outbox := outbox b @ [att]\<rparr>)"
    using send_reaches_channel [OF p(1-4)] failed p(5) by simp
  have retry: "\<exists>att'. outbox (state_of (send_market_alert cenv' uid m
                           (b\<lparr>outbox := outbox b @ [att]\<rparr>)))
                  = outbox b @ [att, att']" if le: "now_check cenv \<le> now_check cenv'"
  proof -
    let ?b' = "b\<lparr>outbox := outbox b @ [att]\<rparr>"
    from datetime_sub_aware_any [OF p(4)] obtain td' where
      td': "datetime_sub (expiry m) (Aware (now_utc cenv')) = Inr td'" by blast
    have u: "map_of (user_prefs ?b') uid = Some prefs" using p(1) by simp
    have r: "recently_notified (now_check cenv') (map_of (last_notified prefs) (market_id m))
               = Inr False"
      using recently_notified_later [OF p(3) le] .
    show ?thesis
      using send_reaches_channel [OF u p(2) r td'] by (cases "delivered cenv'") auto
  qed
  have cycle: "m \<notin> set (new_markets markets (b\<lparr>outbox := outbox b @ [att]\<rparr>))
      \<and> check_new_markets lib ev [m] (b\<lparr>outbox := outbox b @ [att]\<rparr>)
          = Done (save_data lib (b\<lparr>outbox := outbox b @ [att]\<rparr>))"
    if "market_id m \<in> seen_markets b"
    using that by (simp add: new_markets_def check_new_markets_def)
  from first retry cycle show ?thesis by simp
qed

text \<open>C4, witness: the channel fails for subscriber 1 during the dispatch of m1, whose
  identifier the cycle has put into the ledger; a direct call 61 minutes later attempts
  delivery again, and a cycle that fetches m1 again dispatches nothing.\<close>

theorem failed_delivery_keeps_state_witness:
  "send_market_alert \<lparr>now_check = 0, now_utc = 0, delivered = False, now_sent = 0\<rparr> 1
     (example_market (Aware 129600000000)) ledger_bot
   = Done (ledger_bot
        \<lparr>outbox := [(1, render_message (example_market (Aware 129600000000)) 1)]\<rparr>)
   \<and> user_prefs (state_of (send_market_alert
        \<lparr>now_check = 0, now_utc = 0, delivered = False, now_sent = 0\<rparr> 1
        (example_market (Aware 129600000000)) ledger_bot)) = user_prefs ledger_bot
   \<and> (\<exists>att'. outbox (state_of (send_market_alert (later_env 0 1) 1
          (example_market (Aware 129600000000))
          (ledger_bot
             \<lparr>outbox := [(1, render_message (example_market (Aware 129600000000)) 1)]\<rparr>)))
        = [(1, render_message (example_market (Aware 129600000000)) 1), att'])
   \<and> example_market (Aware 129600000000) \<notin> set (new_markets
        [example_market (Aware 129600000000), (example_market (Aware 0))\<lparr>market_id := lit ''m2''\<rparr>]
        (ledger_bot\<lparr>outbox := [(1, render_message (example_market (Aware 129600000000)) 1)]\<rparr>))
   \<and> check_new_markets example_lib later_env [example_market (Aware 129600000000)]
        (ledger_bot\<lparr>outbox := [(1, render_message (example_market (Aware 129600000000)) 1)]\<rparr>)
     = Done (save_data example_lib
        (ledger_bot\<lparr>outbox := [(1, render_message (example_market (Aware 129600000000)) 1)]\<rparr>))"
  using failed_delivery_keeps_state
    [of "\<lparr>now_check = 0, now_utc = 0, delivered = False, now_sent = 0\<rparr>" 1
        "example_market (Aware 129600000000)" ledger_bot
        "(1, render_message (example_market (Aware 129600000000)) 1)"
        "later_env 0 1"
        "[example_market (Aware 129600000000), (example_market (Aware 0))\<lparr>market_id := lit ''m2''\<rparr>]"
        example_lib later_env]
  by (simp add: ev_defs ledger_bot_def later_env_def)

text \<open>A market whose expiry is a naive \<^verbatim>\<open>datetime\<close> never reaches the channel:
  \<^verbatim>\<open>market.expiry - datetime.now(pytz.UTC)\<close> raises \<^verbatim>\<open>TypeError\<close>.\<close>

lemma naive_expiry_raises:
  "map_of (user_prefs b) uid = Some prefs \<Longrightarrow> notify_on_launch prefs \<Longrightarrow>
   recently_notified (now_check cenv) (map_of (last_notified prefs) (market_id m)) = Inr False \<Longrightarrow>
   expiry m = Naive e \<Longrightarrow>
   send_market_alert cenv uid m b = Raised TypeError b"
  by (simp add: send_market_alert_def)

text \<open>
  C3 (the code at the failing input). The market is the one \<^verbatim>\<open>/test\<close> builds, with the naive
  expiry \<^verbatim>\<open>datetime.now() + timedelta(days=30)\<close>; the subscriber has the default preferences:
  the market matches, notifications are enabled and no timestamp exists. The claim
  promises exactly one send. The code raises \<^verbatim>\<open>TypeError\<close> and the outbox stays empty,
  whatever the clock and the channel do.
\<close>

theorem test_alert_raises_before_send:
  "market_matches_preferences lib (test_market t1 t2) (default_preferences 1)
   \<and> notify_on_launch (default_preferences 1)
   \<and> map_of (last_notified (default_preferences 1)) (market_id (test_market t1 t2)) = None
   \<and> cmd_test_alert cenv t1 t2 1 (example_bot (default_preferences 1))
     = Raised TypeError (example_bot (default_preferences 1))
   \<and> outbox (example_bot (default_preferences 1)) = []"
  by (simp add: ev_defs test_market_def market_matches_preferences_def cmd_test_alert_def)

text \<open>
  C9 (as the claim states it, refuted). With the expiry 36 hours after the clock reading,
  the message says 1 day; the ceiling of 1.5 days is 2.
\<close>

theorem days_left_ceil_counterexample:
  "map (\<lambda>(u, msg). msg_days_left msg)
     (outbox (state_of (send_market_alert
        \<lparr>now_check = 0, now_utc = 0, delivered = True, now_sent = 0\<rparr> 1
        (example_market (Aware 129600000000)) (example_bot (default_preferences 1))))) = [1]
   \<and> days_remaining_ceil 129600000000 0 = 2"
  by (simp add: ev_defs days_remaining_ceil_def)

text \<open>
  C9 (amended). For every notification that \<^verbatim>\<open>send_market_alert\<close> hands to the channel, the
  market's expiry is timezone-aware and the days-remaining figure in the message equals
  the floor of (expiry minus now) expressed in whole days, where now is the UTC reading of
  the clock taken when the message is rendered.
\<close>

theorem days_left_is_floor:
  assumes "outbox (state_of (send_market_alert cenv uid m b)) = outbox b @ [(u, msg)]"
  shows "\<exists>e. expiry m = Aware e \<and>
           msg_days_left msg = \<lfloor>real_of_int (e - now_utc cenv) / 86400000000\<rfloor>"
proof -
  from send_attempt_path [OF assms] obtain prefs td where
    td: "datetime_sub (expiry m) (Aware (now_utc cenv)) = Inr td"
    and msg: "(u, msg) = (uid, render_message m (days td))"
    by blast
  from td obtain e where e: "expiry m = Aware e" "td = e - now_utc cenv"
    by (cases "expiry m") auto
  have "msg_days_left msg = (e - now_utc cenv) div 86400000000"
    using msg e by (simp add: render_message_def days_def)
  also have "\<dots> = \<lfloor>real_of_int (e - now_utc cenv) / 86400000000\<rfloor>"
    using floor_divide_of_int_eq [of "e - now_utc cenv" 86400000000, where ?'a = real] by simp
  finally show ?thesis using e by blast
qed

text \<open>C9, witness: the 36-hour market again; the figure 1 is the floor of 1.5.\<close>

theorem days_left_is_floor_witness:
  "outbox (state_of (send_market_alert
      \<lparr>now_check = 0, now_utc = 0, delivered = True, now_sent = 0\<rparr> 1
      (example_market (Aware 129600000000)) (example_bot (default_preferences 1))))
     = [(1, render_message (example_market (Aware 129600000000)) 1)]
   \<and> msg_days_left (render_message (example_market (Aware 129600000000)) 1)
     = \<lfloor>real_of_int (129600000000 - 0) / 86400000000\<rfloor>"
  using days_left_is_floor
    [of "\<lparr>now_check = 0, now_utc = 0, delivered = True, now_sent = 0\<rparr>" 1
        "example_market (Aware 129600000000)" "example_bot (default_preferences 1)" 1
        "render_message (example_market (Aware 129600000000)) 1"]
  by (simp add: ev_defs)

section \<open>Properties of the polling cycle\<close>

text \<open>With at least one subscriber the inner loop ends in its first iteration: the lookup
  of \<^verbatim>\<open>mark_matches_preferences\<close> raises before the filter or the dispatcher is called.\<close>

lemma notify_users_raises:
  "ups \<noteq> [] \<Longrightarrow> notify_users lib cev m ups b = Raised AttributeError b"
  by (cases ups) (auto simp: getattr_predicate_def)

lemma process_new_markets_raises:
  "user_prefs b \<noteq> [] \<Longrightarrow>
   process_new_markets lib ev i (m # ms) b =
     Raised AttributeError (b\<lparr>seen_markets := insert (market_id m) (seen_markets b)\<rparr>)"
  by (simp add: notify_users_raises)

lemma process_new_markets_no_users:
  "user_prefs b = [] \<Longrightarrow>
   process_new_markets lib ev i ms b =
     Done (b\<lparr>seen_markets := market_id ` set ms \<union> seen_markets b\<rparr>)"
  by (induction ms arbitrary: i b) auto

lemma cycle_with_subscriber_aborts:
  assumes "new_markets markets b = m # ms" and "user_prefs b \<noteq> []"
  shows "check_new_markets lib ev markets b =
           Raised AttributeError (b\<lparr>seen_markets := insert (market_id m) (seen_markets b)\<rparr>)"
  using assms
  by (simp add: check_new_markets_def process_new_markets_raises del: process_new_markets.simps)

lemma cycle_without_subscriber_completes:
  assumes "user_prefs b = []"
  shows "check_new_markets lib ev markets b =
           Done (save_data lib
             (b\<lparr>seen_markets := market_id ` set (new_markets markets b) \<union> seen_markets b\<rparr>))"
  using assms by (simp add: check_new_markets_def process_new_markets_no_users)

text \<open>What holds of the ledger in every cycle, completed or not: it only grows, and a market
  whose identifier it holds is not classified as new.\<close>

lemma ledger_grows:
  "seen_markets b \<subseteq> seen_markets (state_of (check_new_markets lib ev markets b))"
proof (cases "user_prefs b = []")
  case True
  then show ?thesis
    by (auto simp: cycle_without_subscriber_completes save_data_def)
next
  case False
  show ?thesis
  proof (cases "new_markets markets b")
    case Nil
    then show ?thesis by (simp add: check_new_markets_def save_data_def)
  next
    case (Cons m ms)
    from cycle_with_subscriber_aborts [OF this False] show ?thesis by auto
  qed
qed

lemma seen_market_not_new:
  "market_id m \<in> seen_markets b \<Longrightarrow> m \<notin> set (new_markets markets b)"
  by (simp add: new_markets_def)

text \<open>
  C2 (the code at the failing input). One subscriber with the default preferences, an
  empty ledger, and a fetched batch of one market that matches the subscriber. The claim
  promises that the filter is evaluated, a delivery is attempted and the state is
  persisted at the end of the cycle. The code raises \<^verbatim>\<open>AttributeError\<close> out of
  \<^verbatim>\<open>check_new_markets\<close>: the market is in the ledger, the outbox is empty and no file has
  been written.
\<close>

theorem cycle_raises_attribute_error:
  "market_matches_preferences lib (example_market (Aware 129600000000)) (default_preferences 1)
   \<and> check_new_markets lib ev [example_market (Aware 129600000000)]
       (example_bot (default_preferences 1))
     = Raised AttributeError
        \<lparr>seen_markets = {lit ''m1''}, user_prefs = [(1, default_preferences 1)], outbox = [],
         data_file = None\<rparr>"
  by (simp add: check_new_markets_def new_markets_def getattr_predicate_def example_bot_def
      fresh_bot_def example_market_def scenario_market_def market_matches_preferences_def
      default_preferences_def CATEGORIES_def)

text \<open>
  C5 (the code at the failing input). One subscriber, an empty ledger, and a fetched batch
  of two new markets m1 and m2. The claim promises that both identifiers are in the
  ledger when the cycle ends. The code raises \<^verbatim>\<open>AttributeError\<close> while it handles m1, the
  same defect as in C2, and m2 is not added to the ledger in this cycle.
\<close>

theorem second_new_market_not_recorded:
  "new_markets [example_market e1, (example_market e2)\<lparr>market_id := lit ''m2''\<rparr>]
       (example_bot (default_preferences 1))
     = [example_market e1, (example_market e2)\<lparr>market_id := lit ''m2''\<rparr>]
   \<and> check_new_markets lib ev [example_market e1, (example_market e2)\<lparr>market_id := lit ''m2''\<rparr>]
       (example_bot (default_preferences 1))
     = Raised AttributeError ((example_bot (default_preferences 1))\<lparr>seen_markets := {lit ''m1''}\<rparr>)
   \<and> lit ''m2'' \<notin> seen_markets ((example_bot (default_preferences 1))\<lparr>seen_markets := {lit ''m1''}\<rparr>)"
  by (simp add: check_new_markets_def new_markets_def getattr_predicate_def example_bot_def
      fresh_bot_def example_market_def scenario_market_def)

section \<open>Properties of the parser\<close>

lemma parse_loop_propagates:
  "parse_item lib item = Inl e \<Longrightarrow> e \<noteq> KeyError \<Longrightarrow> e \<noteq> ValueError \<Longrightarrow>
   parse_loop lib (item # rest) markets warnings = Inl e"
  by simp

lemma parse_loop_skips:
  "parse_item lib item = Inl e \<Longrightarrow> e = KeyError \<or> e = ValueError \<Longrightarrow>
   parse_loop lib (item # rest) markets warnings = parse_loop lib rest markets (Suc warnings)"
  by auto

text \<open>When every record either parses or fails with \<^verbatim>\<open>KeyError\<close> or \<^verbatim>\<open>ValueError\<close>, the
  parser returns the markets of the records that parse, in order, and has logged one
  warning for each of the others.\<close>

lemma parse_loop_total:
  "\<forall>item \<in> set items. \<forall>e. parse_item lib item = Inl e \<longrightarrow> e = KeyError \<or> e = ValueError \<Longrightarrow>
   parse_loop lib items markets warnings =
     Inr (markets @ concat (map (\<lambda>item. case parse_item lib item of Inr m \<Rightarrow> [m] | Inl e \<Rightarrow> []) items),
          warnings + length (filter (\<lambda>item. isl (parse_item lib item)) items))"
proof (induction items arbitrary: markets warnings)
  case Nil
  then show ?case by simp
next
  case (Cons item items)
  then have IH: "\<And>ms w. parse_loop lib items ms w =
     Inr (ms @ concat (map (\<lambda>item. case parse_item lib item of Inr m \<Rightarrow> [m] | Inl e \<Rightarrow> []) items),
          w + length (filter (\<lambda>item. isl (parse_item lib item)) items))"
    by simp
  show ?case
  proof (cases "parse_item lib item")
    case (Inl e)
    then have "e = KeyError \<or> e = ValueError" using Cons.prems by simp
    with Inl show ?thesis by (auto simp: IH)
  next
    case (Inr m)
    then show ?thesis by (simp add: IH)
  qed
qed

text \<open>The scenario of the specification: one record without the expiry key gives no market
  and one warning, and nothing is raised.\<close>

lemma missing_expiry_skipped:
  "parse_markets lib (Some [(example_item (lit ''m1''))\<lparr>item_expiry := None\<rparr>]) = Inr ([], 1)"
  by (simp add: parse_markets_def parse_item_def example_item_def py_lower_def py_float_def
      parse_timestamp_def)

text \<open>
  C7 (the code at the failing input). A batch of two records: the first has the JSON value
  \<^verbatim>\<open>null\<close> under \<^verbatim>\<open>volume\<close>, the second is well formed. The claim promises that the first is
  skipped with a warning and the second is parsed. In the code \<^verbatim>\<open>float(None)\<close> raises
  \<^verbatim>\<open>TypeError\<close>, which \<^verbatim>\<open>except (KeyError, ValueError)\<close> does not catch: the exception leaves
  \<^verbatim>\<open>parse_markets\<close> and the second record is never read.
\<close>

theorem null_volume_aborts_batch:
  "parse_markets lib (Some [(example_item (lit ''m1''))\<lparr>item_volume := Some JNull\<rparr>, example_item (lit ''m2'')])
     = Inl TypeError"
  by (simp add: parse_markets_def parse_item_def example_item_def py_lower_def py_float_def)

section \<open>Properties of the persistence\<close>

text \<open>What does round-trip, for a library that behaves (\<^verbatim>\<open>int(str(i)) == i\<close>, and
  \<^verbatim>\<open>list(s)\<close> lists the elements of \<^verbatim>\<open>s\<close>): the ledger, the order and keys of the users, and
  every field of a record but the last-notified values, each of which comes back as
  text.\<close>

lemma update_fresh_key:
  "k \<notin> fst ` set al \<Longrightarrow> AList.update k v al = al @ [(k, v)]"
  by (induction al) auto

lemma load_users_saved:
  assumes "\<And>i. int_str lib (str_int lib i) = Some i"
  shows "distinct (map fst ups) \<Longrightarrow> fst ` set acc \<inter> fst ` set ups = {} \<Longrightarrow>
         load_users lib (map (\<lambda>(uid, prefs). (str_int lib uid, prefs_to_doc lib prefs)) ups) acc
           = acc @ map (\<lambda>(uid, prefs). (uid, doc_to_prefs uid (prefs_to_doc lib prefs))) ups"
proof (induction ups arbitrary: acc)
  case Nil
  then show ?case by simp
next
  case (Cons p ups)
  obtain uid prefs where p: "p = (uid, prefs)" by (cases p)
  have fresh: "uid \<notin> fst ` set acc" using Cons.prems(2) p by auto
  have d: "distinct (map fst ups)" using Cons.prems(1) by simp
  have disj: "fst ` set (acc @ [(uid, doc_to_prefs uid (prefs_to_doc lib prefs))]) \<inter> fst ` set ups = {}"
    using Cons.prems p by auto
  show ?case
    using Cons.IH [OF d disj] p assms by (simp add: update_fresh_key [OF fresh])
qed

lemma roundtrip_general:
  assumes ints: "\<And>i. int_str lib (str_int lib i) = Some i"
      and sets: "\<And>S. finite S \<Longrightarrow> set (list_set lib S) = S"
      and keys: "distinct (map fst (user_prefs b))"
      and fin: "finite (seen_markets b)"
  shows "seen_markets (load_data lib (fresh_bot (data_file (save_data lib b)))) = seen_markets b"
    and "user_prefs (load_data lib (fresh_bot (data_file (save_data lib b))))
           = map (\<lambda>(uid, prefs). (uid, doc_to_prefs uid (prefs_to_doc lib prefs))) (user_prefs b)"
  using load_users_saved [OF ints keys, of "[]"] sets [OF fin]
  by (simp_all add: load_data_def save_data_def fresh_bot_def)

lemma roundtrip_fields:
  assumes "finite (enabled_categories prefs)" and "\<And>S. finite S \<Longrightarrow> set (list_set lib S) = S"
  shows "doc_to_prefs uid (prefs_to_doc lib prefs)
           = prefs\<lparr>user_id := uid,
                   last_notified := map (\<lambda>(k, v). (k, Txt (stamp_text lib v))) (last_notified prefs)\<rparr>"
  using assms by (simp add: doc_to_prefs_def prefs_to_doc_def split_def comp_def)

text \<open>What a reloaded timestamp does to the dispatcher: the cooldown test subtracts a text
  from a \<^verbatim>\<open>datetime\<close> and raises \<^verbatim>\<open>TypeError\<close> before any send.\<close>

lemma reloaded_timestamp_raises:
  "map_of (user_prefs b) uid = Some prefs \<Longrightarrow> notify_on_launch prefs \<Longrightarrow>
   map_of (last_notified prefs) (market_id m) = Some (Txt s) \<Longrightarrow> s \<noteq> [] \<Longrightarrow>
   send_market_alert cenv uid m b = Raised TypeError b"
  by (simp add: send_market_alert_def recently_notified_def)

text \<open>
  C6 (the code at the failing input). A bot with one subscriber whose last-notified map
  holds a \<^verbatim>\<open>datetime\<close> for the market m1, saved and then loaded by a freshly started bot.
  The claim promises the same last-notified map. \<^verbatim>\<open>json.dump(..., default=str)\<close> writes the
  \<^verbatim>\<open>datetime\<close> as text and \<^verbatim>\<open>load_data\<close> stores that text unparsed, so the reloaded record
  differs from the saved one, for any behaviour of the library functions.
\<close>

theorem roundtrip_turns_timestamp_into_text:
  "user_prefs (load_data lib (fresh_bot (data_file (save_data lib
      (example_bot ((default_preferences 1)\<lparr>last_notified := [(lit ''m1'', Dt d)]\<rparr>))))))
     = (case int_str lib (str_int lib 1) of
          None \<Rightarrow> []
        | Some uid \<Rightarrow>
            [(uid, (default_preferences uid)
               \<lparr>enabled_categories := set (list_set lib (enabled_categories (default_preferences 1))),
                last_notified := [(lit ''m1'', Txt (str_datetime lib d))]\<rparr>)])
   \<and> user_prefs (load_data lib (fresh_bot (data_file (save_data lib
        (example_bot ((default_preferences 1)\<lparr>last_notified := [(lit ''m1'', Dt d)]\<rparr>))))))
     \<noteq> user_prefs (example_bot ((default_preferences 1)\<lparr>last_notified := [(lit ''m1'', Dt d)]\<rparr>))"
  by (simp add: load_data_def save_data_def fresh_bot_def example_bot_def prefs_to_doc_def
      doc_to_prefs_def stamp_text_def default_preferences_def split: option.splits)

section \<open>Properties of the start command\<close>

text \<open>
  C10. \<^verbatim>\<open>/start\<close> for a subscriber already in the preference store leaves the whole state,
  and so every field of that subscriber's preferences, unchanged. For an absent
  subscriber it creates the record with the defaults (all eight categories enabled, no
  keywords, zero thresholds, notifications enabled, empty last-notified map), and leaves
  the records of all other subscribers and the ledger as they were.
\<close>

theorem cmd_start_idempotent:
  "(map_of (user_prefs b) uid = Some prefs \<longrightarrow> cmd_start lib uid b = b)
   \<and> (map_of (user_prefs b) uid = None \<longrightarrow>
        map_of (user_prefs (cmd_start lib uid b)) uid =
          Some \<lparr>user_id = uid,
                enabled_categories = {lit ''politics'', lit ''crypto'', lit ''sports'', lit ''entertainment'',
                  lit ''technology'', lit ''finance'', lit ''science'', lit ''other''},
                keywords_list = [], min_liquidity = Num 0, min_volume = Num 0,
                notify_on_launch = True, last_notified = []\<rparr>
        \<and> (\<forall>u. u \<noteq> uid \<longrightarrow>
              map_of (user_prefs (cmd_start lib uid b)) u = map_of (user_prefs b) u)
        \<and> seen_markets (cmd_start lib uid b) = seen_markets b)"
  by (auto simp: cmd_start_def save_data_def default_preferences_def CATEGORIES_def map_add_def
      split: option.splits)

text \<open>C10, witness: subscriber 1 has set a keyword; \<^verbatim>\<open>/start\<close> from 1 changes nothing,
  \<^verbatim>\<open>/start\<close> from the new subscriber 2 adds the default record and keeps that of 1.\<close>

theorem cmd_start_idempotent_witness:
  "cmd_start example_lib 1 (example_bot ((default_preferences 1)\<lparr>keywords_list := [lit ''btc'']\<rparr>))
     = example_bot ((default_preferences 1)\<lparr>keywords_list := [lit ''btc'']\<rparr>)
   \<and> map_of (user_prefs (cmd_start example_lib 2
         (example_bot ((default_preferences 1)\<lparr>keywords_list := [lit ''btc'']\<rparr>)))) 2
     = Some (default_preferences 2)
   \<and> map_of (user_prefs (cmd_start example_lib 2
         (example_bot ((default_preferences 1)\<lparr>keywords_list := [lit ''btc'']\<rparr>)))) 1
     = Some ((default_preferences 1)\<lparr>keywords_list := [lit ''btc'']\<rparr>)"
  using cmd_start_idempotent
    [of "example_bot ((default_preferences 1)\<lparr>keywords_list := [lit ''btc'']\<rparr>)" 1
        "(default_preferences 1)\<lparr>keywords_list := [lit ''btc'']\<rparr>" example_lib]
    cmd_start_idempotent
    [of "example_bot ((default_preferences 1)\<lparr>keywords_list := [lit ''btc'']\<rparr>)" 2
        "(default_preferences 1)\<lparr>keywords_list := [lit ''btc'']\<rparr>" example_lib]
  by (simp add: example_bot_def fresh_bot_def default_preferences_def CATEGORIES_def)


end
